theory Spec2Isabelle
  imports Complex_Main
begin

section \<open>GLSL values and built-in functions\<close>

text \<open>
  The two fragment shaders of \<^verbatim>\<open>src/components/Simulation.tsx\<close> compute on GLSL
  \<^verbatim>\<open>float\<close>s and vectors of them. A \<^verbatim>\<open>float\<close> is modelled as a \<^typ>\<open>real\<close>
  (exact arithmetic, no rounding, no NaN or infinity), a vector as a tuple, and a
  \<^verbatim>\<open>sampler2D\<close> as the function that \<^verbatim>\<open>texture2D\<close> computes from it.
\<close>

type_synonym vec2 = "real \<times> real"
type_synonym vec3 = "real \<times> real \<times> real"
type_synonym vec4 = "real \<times> real \<times> real \<times> real"
type_synonym sampler2D = "vec2 \<Rightarrow> vec4"

definition texture2D :: "sampler2D \<Rightarrow> vec2 \<Rightarrow> vec4" where
  "texture2D s uv = s uv"

fun red :: "vec4 \<Rightarrow> real" where
  "red (r, g, b, a) = r"

fun green :: "vec4 \<Rightarrow> real" where
  "green (r, g, b, a) = g"

fun blue :: "vec4 \<Rightarrow> real" where
  "blue (r, g, b, a) = b"

fun rgb :: "vec4 \<Rightarrow> vec3" where
  "rgb (r, g, b, a) = (r, g, b)"

fun vec2_add :: "vec2 \<Rightarrow> vec2 \<Rightarrow> vec2" where
  "vec2_add (a, b) (c, d) = (a + c, b + d)"

fun vec2_sub :: "vec2 \<Rightarrow> vec2 \<Rightarrow> vec2" where
  "vec2_sub (a, b) (c, d) = (a - c, b - d)"

fun vec3_add :: "vec3 \<Rightarrow> vec3 \<Rightarrow> vec3" where
  "vec3_add (a, b, c) (d, e, f) = (a + d, b + e, c + f)"

fun vec3_scale :: "vec3 \<Rightarrow> real \<Rightarrow> vec3" where
  "vec3_scale (a, b, c) k = (a * k, b * k, c * k)"

text \<open>
  The built-ins follow the reference formulas of the GLSL ES specification.
  \<^verbatim>\<open>smoothstep\<close> is called by the simulation shader with \<^verbatim>\<open>edge0 > edge1\<close>; the
  specification leaves that case open, and the model takes the reference formula
  \<^verbatim>\<open>t = clamp((x - edge0) / (edge1 - edge0), 0, 1); t * t * (3 - 2 * t)\<close> there too.
\<close>

definition clamp :: "real \<Rightarrow> real \<Rightarrow> real \<Rightarrow> real" where
  "clamp v lo hi = min (max v lo) hi"

fun clamp_vec2 :: "vec2 \<Rightarrow> real \<Rightarrow> real \<Rightarrow> vec2" where
  "clamp_vec2 (a, b) lo hi = (clamp a lo hi, clamp b lo hi)"

definition smoothstep :: "real \<Rightarrow> real \<Rightarrow> real \<Rightarrow> real" where
  "smoothstep edge0 edge1 v =
     (let t = clamp ((v - edge0) / (edge1 - edge0)) 0 1 in t * t * (3 - 2 * t))"

definition mix :: "real \<Rightarrow> real \<Rightarrow> real \<Rightarrow> real" where
  "mix a b t = a * (1 - t) + b * t"

fun distance_vec2 :: "vec2 \<Rightarrow> vec2 \<Rightarrow> real" where
  "distance_vec2 (a, b) (c, d) = sqrt ((a - c)\<^sup>2 + (b - d)\<^sup>2)"

fun length_vec3 :: "vec3 \<Rightarrow> real" where
  "length_vec3 (a, b, c) = sqrt (a\<^sup>2 + b\<^sup>2 + c\<^sup>2)"

definition normalize_vec3 :: "vec3 \<Rightarrow> vec3" where
  "normalize_vec3 v =
     (case v of (a, b, c) \<Rightarrow> (a / length_vec3 v, b / length_vec3 v, c / length_vec3 v))"

fun dot :: "vec3 \<Rightarrow> vec3 \<Rightarrow> real" where
  "dot (a, b, c) (d, e, f) = a * d + b * e + c * f"

definition pow :: "real \<Rightarrow> real \<Rightarrow> real" where
  "pow b e = b powr e"

section \<open>The simulation shader (ripple physics)\<close>

text \<open>
  The uniforms of \<^verbatim>\<open>SimulationShader\<close>. The type parameter is what the sampler
  uniform holds: a reference to a render target's texture on the JavaScript side, a
  \<^typ>\<open>sampler2D\<close> once the texture is bound for the draw call.
\<close>

record 't SimulationShader_uniforms =
  uPrev :: 't
  uMouse :: vec3
  uViscosity :: real
  uRippleStrength :: real

text \<open>Line 54: the brush term, from the distance \<open>d\<close> of line 52.\<close>

definition brush :: "vec2 \<Rightarrow> vec3 \<Rightarrow> real \<Rightarrow> real" where
  "brush vUv mouse rippleStrength =
     (case mouse of (mx, my, mz) \<Rightarrow>
        let d = distance_vec2 vUv (mx, my)
        in smoothstep 0.05 0.0 d * mz * rippleStrength)"

text \<open>\<^verbatim>\<open>SimulationShader.fragmentShader\<close>, lines 40 to 62.\<close>

definition SimulationShader_fragmentShader ::
  "sampler2D SimulationShader_uniforms \<Rightarrow> vec2 \<Rightarrow> vec4" where
  "SimulationShader_fragmentShader u vUv =
     (let texel = (1.0 / 512.0, 1.0 / 512.0);
          top' = red (texture2D (uPrev u) (vec2_add vUv (0.0, snd texel)));
          bottom = red (texture2D (uPrev u) (vec2_sub vUv (0.0, snd texel)));
          left = red (texture2D (uPrev u) (vec2_sub vUv (fst texel, 0.0)));
          right = red (texture2D (uPrev u) (vec2_add vUv (fst texel, 0.0)));
          current = (top' + bottom + left + right) * 0.25;
          current = current + brush vUv (uMouse u) (uRippleStrength u);
          current = current * uViscosity u
      in (current, current, current, 1.0))"

section \<open>The display shader (glass distortion)\<close>

record ('c, 'd) DisplayShader_uniforms =
  uTexture :: 'c
  uData :: 'd
  uRefraction :: real
  uReflection :: real
  uDistortion :: real
  uTime :: real

type_synonym display_bound = "(sampler2D, sampler2D) DisplayShader_uniforms"

text \<open>Line 94: the ripple height at the pixel.\<close>

definition display_height :: "display_bound \<Rightarrow> vec2 \<Rightarrow> real" where
  "display_height u vUv = red (texture2D (uData u) vUv)"

text \<open>Lines 98 to 102: the normal from forward differences of the height.\<close>

definition display_normal :: "display_bound \<Rightarrow> vec2 \<Rightarrow> vec3" where
  "display_normal u vUv =
     (let height = display_height u vUv;
          offset = 0.01;
          hRight = red (texture2D (uData u) (vec2_add vUv (offset, 0.0)));
          hTop = red (texture2D (uData u) (vec2_add vUv (0.0, offset)))
      in normalize_vec3 (hRight - height, hTop - height, 1.0))"

text \<open>Lines 105 to 108: the distorted, then clamped, texture coordinate.\<close>

definition display_distortedUv :: "display_bound \<Rightarrow> vec2 \<Rightarrow> vec2" where
  "display_distortedUv u vUv =
     (case display_normal u vUv of (nx, ny, nz) \<Rightarrow>
        let distortedUv =
              vec2_sub vUv (nx * uRefraction u * uDistortion u, ny * uRefraction u * uDistortion u)
        in clamp_vec2 distortedUv 0.001 0.999)"

text \<open>Lines 111 to 118: camera colour plus the highlight scaled by the height.\<close>

definition display_mixed :: "display_bound \<Rightarrow> vec2 \<Rightarrow> vec3" where
  "display_mixed u vUv =
     (let camColor = texture2D (uTexture u) (display_distortedUv u vUv);
          light = dot (display_normal u vUv) (normalize_vec3 (0.5, 0.5, 1.0));
          highlight = vec3_scale (1.0, 1.0, 1.0) (pow (max 0.0 light) 10.0 * uReflection u)
      in vec3_add (rgb camColor) (vec3_scale highlight (display_height u vUv)))"

text \<open>\<^verbatim>\<open>DisplayShader.fragmentShader\<close>, lines 92 to 129.\<close>

definition DisplayShader_fragmentShader :: "display_bound \<Rightarrow> vec2 \<Rightarrow> vec4" where
  "DisplayShader_fragmentShader u vUv =
     (let height = display_height u vUv;
          distortedUv = display_distortedUv u vUv;
          finalColor = display_mixed u vUv;
          finalColor =
            (if height > 0.1 then
               (case finalColor of (fr, fg, fb) \<Rightarrow>
                  let r = red (texture2D (uTexture u) (vec2_add distortedUv (0.002, 0.0)));
                      b = blue (texture2D (uTexture u) (vec2_sub distortedUv (0.002, 0.0)))
                  in (mix fr r 0.5, fg, mix fb b 0.5))
             else finalColor)
      in (case finalColor of (fr, fg, fb) \<Rightarrow> (fr, fg, fb, 1.0)))"

text \<open>
  The coordinates at which one run of the display shader samples the camera texture
  \<^verbatim>\<open>uTexture\<close>: line 111 always, lines 122 and 123 under the guard of line 121.
\<close>

definition display_camera_samples :: "display_bound \<Rightarrow> vec2 \<Rightarrow> vec2 list" where
  "display_camera_samples u vUv =
     (let distortedUv = display_distortedUv u vUv
      in distortedUv #
         (if display_height u vUv > 0.1
          then [vec2_add distortedUv (0.002, 0.0), vec2_sub distortedUv (0.002, 0.0)]
          else []))"

section \<open>The field update as the specification words it\<close>

text \<open>
  Section 4.2 of the specification, steps 2 to 5, over the four neighbour samples, the
  distance to the disturbance, its force and the two parameters.
\<close>

definition spec_smoothed :: "real \<Rightarrow> real \<Rightarrow> real \<Rightarrow> real \<Rightarrow> real" where
  "spec_smoothed t b l r = (t + b + l + r) / 4"

definition spec_brush :: "real \<Rightarrow> real \<Rightarrow> real \<Rightarrow> real" where
  "spec_brush d frc rippleStrength = smoothstep 0.05 0.0 d * frc * rippleStrength"

definition spec_value :: "real \<Rightarrow> real \<Rightarrow> real \<Rightarrow> real" where
  "spec_value smoothed br visc = (smoothed + br) * visc"

section \<open>The records of \<^verbatim>\<open>src/types.ts\<close>\<close>

record FluidParams =
  reflectionIntensity :: real
  refractionIndex :: real
  distortionStrength :: real
  waveHeight :: real
  speed :: real
  rippleStrength :: real
  viscosity :: real

record HandStatus =
  detected :: bool
  pinching :: bool
  distance :: real
  position :: vec2

section \<open>Render targets\<close>

text \<open>
  \<^verbatim>\<open>useFBO(512, 512, { type: FloatType, minFilter: LinearFilter, magFilter: LinearFilter })\<close>
  (lines 144 and 145): a render target is a grid of 512 by 512 texels. Its texture is
  sampled with linear filtering; the wrap mode is not set in the source and is the
  library's default, clamp to edge. A texel \<open>(i, j)\<close> has its centre at
  \<open>((i + 1/2) / 512, (j + 1/2) / 512)\<close>.
\<close>

type_synonym fbo_image = "int \<Rightarrow> int \<Rightarrow> vec4"

definition in_target :: "int \<Rightarrow> int \<Rightarrow> bool" where
  "in_target i j \<longleftrightarrow> 0 \<le> i \<and> i < 512 \<and> 0 \<le> j \<and> j < 512"

definition texel_at :: "fbo_image \<Rightarrow> int \<Rightarrow> int \<Rightarrow> vec4" where
  "texel_at g i j = g (max 0 (min 511 i)) (max 0 (min 511 j))"

fun mix_vec4 :: "vec4 \<Rightarrow> vec4 \<Rightarrow> real \<Rightarrow> vec4" where
  "mix_vec4 (a, b, c, d) (e, f, g, h) t = (mix a e t, mix b f t, mix c g t, mix d h t)"

definition linear_sampler :: "fbo_image \<Rightarrow> sampler2D" where
  "linear_sampler g uv =
     (case uv of (s, t) \<Rightarrow>
        let x = s * 512 - 1 / 2;
            y = t * 512 - 1 / 2;
            i = \<lfloor>x\<rfloor>;
            j = \<lfloor>y\<rfloor>;
            a = x - of_int i;
            b = y - of_int j
        in mix_vec4 (mix_vec4 (texel_at g i j) (texel_at g (i + 1) j) a)
                    (mix_vec4 (texel_at g i (j + 1)) (texel_at g (i + 1) (j + 1)) a) b)"

definition pixel_centre :: "int \<Rightarrow> int \<Rightarrow> vec2" where
  "pixel_centre i j = ((of_int i + 1 / 2) / 512, (of_int j + 1 / 2) / 512)"

text \<open>
  \<^verbatim>\<open>gl.render(sceneSim, cameraSim)\<close> into a render target (lines 188, 189, 209 and 216):
  the scene is one plane of size 2 by 2 under an orthographic camera over \<open>[-1, 1]\<^sup>2\<close>,
  so the fragment shader runs once for every texel, with \<^verbatim>\<open>vUv\<close> the texel's centre.
\<close>

definition render_target :: "(vec2 \<Rightarrow> vec4) \<Rightarrow> fbo_image" where
  "render_target frag i j = (if in_target i j then frag (pixel_centre i j) else (0, 0, 0, 0))"

definition cleared :: fbo_image where
  "cleared i j = (0, 0, 0, 0)"

text \<open>A sampler uniform that is still \<^verbatim>\<open>null\<close> reads as opaque black.\<close>

definition null_sampler :: sampler2D where
  "null_sampler uv = (0, 0, 0, 1)"

section \<open>The component state and the frame callback\<close>

datatype texture_ref = FboA_texture | FboB_texture

type_synonym sim_material = "texture_ref option SimulationShader_uniforms"
type_synonym display_material = "(sampler2D option, texture_ref option) DisplayShader_uniforms"

record Simulation =
  fboA :: fbo_image
  fboB :: fbo_image
  simMaterial :: "sim_material option"
  displayMaterial :: "display_material option"
  videoTexture :: "sampler2D option"
  swap :: bool

definition SimulationShader_uniforms_init :: sim_material where
  "SimulationShader_uniforms_init =
     \<lparr>uPrev = None, uMouse = (0, 0, 0), uViscosity = 0.98, uRippleStrength = 0.5\<rparr>"

definition DisplayShader_uniforms_init :: display_material where
  "DisplayShader_uniforms_init =
     \<lparr>uTexture = None, uData = None, uRefraction = 0.1, uReflection = 0.5,
      uDistortion = 1.0, uTime = 0.0\<rparr>"

text \<open>The component once both materials are mounted, before the first frame.\<close>

definition mounted :: "sampler2D option \<Rightarrow> Simulation" where
  "mounted video =
     \<lparr>fboA = cleared, fboB = cleared,
      simMaterial = Some SimulationShader_uniforms_init,
      displayMaterial = Some DisplayShader_uniforms_init,
      videoTexture = video, swap = False\<rparr>"

fun contents :: "Simulation \<Rightarrow> texture_ref \<Rightarrow> fbo_image" where
  "contents s FboA_texture = fboA s"
| "contents s FboB_texture = fboB s"

fun setRenderTarget_render :: "texture_ref \<Rightarrow> fbo_image \<Rightarrow> Simulation \<Rightarrow> Simulation" where
  "setRenderTarget_render FboA_texture g s = s\<lparr>fboA := g\<rparr>"
| "setRenderTarget_render FboB_texture g s = s\<lparr>fboB := g\<rparr>"

definition bind_field :: "Simulation \<Rightarrow> texture_ref option \<Rightarrow> sampler2D" where
  "bind_field s r = (case r of None \<Rightarrow> null_sampler | Some t \<Rightarrow> linear_sampler (contents s t))"

definition bind_camera :: "sampler2D option \<Rightarrow> sampler2D" where
  "bind_camera c = (case c of None \<Rightarrow> null_sampler | Some t \<Rightarrow> t)"

definition bind_sim :: "Simulation \<Rightarrow> sim_material \<Rightarrow> sampler2D SimulationShader_uniforms" where
  "bind_sim s m =
     \<lparr>uPrev = bind_field s (uPrev m), uMouse = uMouse m, uViscosity = uViscosity m,
      uRippleStrength = uRippleStrength m\<rparr>"

definition bind_display :: "Simulation \<Rightarrow> display_material \<Rightarrow> display_bound" where
  "bind_display s m =
     \<lparr>uTexture = bind_camera (uTexture m), uData = bind_field s (uData m),
      uRefraction = uRefraction m, uReflection = uReflection m,
      uDistortion = uDistortion m, uTime = uTime m\<rparr>"

text \<open>Lines 169 and 170.\<close>

definition currentFBO :: "Simulation \<Rightarrow> texture_ref" where
  "currentFBO s = (if swap s then FboA_texture else FboB_texture)"

definition prevFBO :: "Simulation \<Rightarrow> texture_ref" where
  "prevFBO s = (if swap s then FboB_texture else FboA_texture)"

text \<open>Lines 175 to 179: the hand status mapped to the disturbance.\<close>

definition mouseX :: "HandStatus \<Rightarrow> real" where
  "mouseX handStatus = (if detected handStatus then fst (position handStatus) else - 1)"

definition mouseY :: "HandStatus \<Rightarrow> real" where
  "mouseY handStatus = (if detected handStatus then 1.0 - snd (position handStatus) else - 1)"

definition force :: "HandStatus \<Rightarrow> real" where
  "force handStatus =
     (if pinching handStatus then 1.0 else (if detected handStatus then 0.2 else 0.0))"

text \<open>
  The callback of \<^verbatim>\<open>useFrame\<close>, lines 165 to 204, on the component state, with
  \<^verbatim>\<open>params\<close>, \<^verbatim>\<open>handStatus\<close> and \<^verbatim>\<open>state.clock.elapsedTime\<close> as inputs.
\<close>

definition useFrame :: "FluidParams \<Rightarrow> HandStatus \<Rightarrow> real \<Rightarrow> Simulation \<Rightarrow> Simulation" where
  "useFrame params handStatus elapsedTime s =
     (case (simMaterial s, displayMaterial s) of
        (Some sm, Some dm) \<Rightarrow>
          let sm' = sm\<lparr>uPrev := Some (prevFBO s),
                       uMouse := (mouseX handStatus, mouseY handStatus, force handStatus),
                       uViscosity := viscosity params,
                       uRippleStrength := rippleStrength params\<rparr>;
              s1 = setRenderTarget_render (currentFBO s)
                     (render_target (SimulationShader_fragmentShader (bind_sim s sm'))) s;
              dm1 = (case videoTexture s of
                       Some tex \<Rightarrow> dm\<lparr>uTexture := Some tex\<rparr>
                     | None \<Rightarrow> dm);
              dm' = dm1\<lparr>uData := Some (currentFBO s),
                        uRefraction := refractionIndex params,
                        uReflection := reflectionIntensity params,
                        uDistortion := distortionStrength params,
                        uTime := elapsedTime * speed params\<rparr>
          in s1\<lparr>simMaterial := Some sm', displayMaterial := Some dm', swap := \<not> swap s\<rparr>
      | _ \<Rightarrow> s)"

text \<open>
  The display pass that follows the callback: the mesh of lines 219 to 226 is drawn with
  the display material, one run of the display shader for every \<^verbatim>\<open>vUv\<close>.
\<close>

definition display_pass :: "Simulation \<Rightarrow> (vec2 \<Rightarrow> vec4) option" where
  "display_pass s =
     (case displayMaterial s of
        None \<Rightarrow> None
      | Some dm \<Rightarrow> Some (DisplayShader_fragmentShader (bind_display s dm)))"

text \<open>The frame loop: one callback for every frame, on that frame's inputs.\<close>

type_synonym frame_input = "FluidParams \<times> HandStatus \<times> real"

fun frames :: "frame_input list \<Rightarrow> Simulation \<Rightarrow> Simulation" where
  "frames [] s = s"
| "frames ((params, handStatus, elapsedTime) # rest) s =
     frames rest (useFrame params handStatus elapsedTime s)"

text \<open>
  The field between two frames: the buffer the last frame wrote, which is the one the
  next frame reads. Only the red channel carries the height.
\<close>

definition field :: "Simulation \<Rightarrow> int \<Rightarrow> int \<Rightarrow> real" where
  "field s i j = red (contents s (prevFBO s) i j)"

text \<open>
  The uniforms the simulation pass of a frame runs with: the previous buffer bound as
  \<^verbatim>\<open>uPrev\<close>, the disturbance and the two parameters of lines 181 to 185.
\<close>

definition sim_step_uniforms ::
  "FluidParams \<Rightarrow> HandStatus \<Rightarrow> Simulation \<Rightarrow> sampler2D SimulationShader_uniforms" where
  "sim_step_uniforms params h s =
     \<lparr>uPrev = linear_sampler (contents s (prevFBO s)),
      uMouse = (mouseX h, mouseY h, force h),
      uViscosity = viscosity params, uRippleStrength = rippleStrength params\<rparr>"

section \<open>Relations between runs, and an invariant\<close>

text \<open>Every texel of both buffers has a nonnegative height.\<close>

definition nonneg_buffers :: "Simulation \<Rightarrow> bool" where
  "nonneg_buffers s \<longleftrightarrow> (\<forall>r i j. in_target i j \<longrightarrow> 0 \<le> red (contents s r i j))"

text \<open>
  Two component states that agree on everything but the \<^verbatim>\<open>uTime\<close> uniform of the
  display material, and two frame inputs that agree on everything but the parameters
  \<^verbatim>\<open>speed\<close> and \<^verbatim>\<open>waveHeight\<close>.
\<close>

definition same_but_uTime :: "Simulation \<Rightarrow> Simulation \<Rightarrow> bool" where
  "same_but_uTime s s' \<longleftrightarrow>
     fboA s = fboA s' \<and> fboB s = fboB s' \<and> simMaterial s = simMaterial s' \<and>
     videoTexture s = videoTexture s' \<and> swap s = swap s' \<and>
     rel_option (\<lambda>d d'. uTexture d = uTexture d' \<and> uData d = uData d' \<and>
                           uRefraction d = uRefraction d' \<and> uReflection d = uReflection d' \<and>
                           uDistortion d = uDistortion d')
       (displayMaterial s) (displayMaterial s')"

fun same_but_speed_waveHeight :: "frame_input \<Rightarrow> frame_input \<Rightarrow> bool" where
  "same_but_speed_waveHeight (p, h, t) (p', h', t') \<longleftrightarrow>
     h' = h \<and> t' = t \<and>
     reflectionIntensity p' = reflectionIntensity p \<and> refractionIndex p' = refractionIndex p \<and>
     distortionStrength p' = distortionStrength p \<and> rippleStrength p' = rippleStrength p \<and>
     viscosity p' = viscosity p"

section \<open>Concrete inputs\<close>

text \<open>A field sampler that is flat at height one half, and display uniforms over it.\<close>

definition flat_half :: sampler2D where
  "flat_half uv = (1 / 2, 1 / 2, 1 / 2, 1)"

definition edge_uniforms :: display_bound where
  "edge_uniforms =
     \<lparr>uTexture = null_sampler, uData = flat_half, uRefraction = 0.1, uReflection = 0.5,
      uDistortion = 1.0, uTime = 0.0\<rparr>"

text \<open>
  \<^verbatim>\<open>DEFAULT_PARAMS\<close> and the initial hand status of the application component
  (\<^verbatim>\<open>src/unnamed/part_000\<close>, lines 9 to 17 and 22 to 27).
\<close>

definition DEFAULT_PARAMS :: FluidParams where
  "DEFAULT_PARAMS =
     \<lparr>reflectionIntensity = 0.5, refractionIndex = 0.1, distortionStrength = 0.8,
      waveHeight = 0.5, speed = 1.0, rippleStrength = 0.6, viscosity = 0.96\<rparr>"

definition handStatus_init :: HandStatus where
  "handStatus_init = \<lparr>detected = False, pinching = False, distance = 0, position = (0.5, 0.5)\<rparr>"

text \<open>A pinching hand at the centre of the image.\<close>

definition handStatus_pinch :: HandStatus where
  "handStatus_pinch = \<lparr>detected = True, pinching = True, distance = 0.5, position = (0.5, 0.5)\<rparr>"

text \<open>A buffer of one height everywhere.\<close>

definition uniform_image :: "real \<Rightarrow> fbo_image" where
  "uniform_image v i j = (v, v, v, 1)"

text \<open>An endless run of frames with no hand in sight, at 60 frames a second.\<close>

definition idle :: "nat \<Rightarrow> frame_input" where
  "idle n = (DEFAULT_PARAMS, handStatus_init, real n / 60)"

text \<open>
  A pinching hand whose midpoint maps to the centre of the texel \<open>(511, 255)\<close>, at the
  right edge of the field; the component after one frame with that hand, from the
  mounted state with a grey camera image; and the display uniforms bound for its
  display pass.
\<close>

definition handStatus_edge :: HandStatus where
  "handStatus_edge =
     \<lparr>detected = True, pinching = True, distance = 0.5, position = (1023 / 1024, 513 / 1024)\<rparr>"

definition edge_frame :: Simulation where
  "edge_frame = useFrame DEFAULT_PARAMS handStatus_edge 0 (mounted (Some flat_half))"

definition edge_bound :: display_bound where
  "edge_bound =
     \<lparr>uTexture = flat_half, uData = linear_sampler (fboB edge_frame), uRefraction = 1 / 10,
      uReflection = 1 / 2, uDistortion = 4 / 5, uTime = 0\<rparr>"

text \<open>
  A pinching hand whose midpoint maps to the centre of the texel \<open>(255, 255)\<close>, and
  the component after one frame with that hand from the mounted state.
\<close>

definition handStatus_texel :: HandStatus where
  "handStatus_texel =
     \<lparr>detected = True, pinching = True, distance = 0.5, position = (511 / 1024, 513 / 1024)\<rparr>"

definition pinched :: Simulation where
  "pinched = useFrame DEFAULT_PARAMS handStatus_texel 0 (mounted None)"

section \<open>Properties of the built-ins and of the sampling\<close>

lemma clamp_bounds: "lo \<le> hi \<Longrightarrow> lo \<le> clamp v lo hi \<and> clamp v lo hi \<le> hi"
  by (simp add: clamp_def min_def max_def)

lemma smoothstep_outside: "0.05 \<le> d \<Longrightarrow> smoothstep 0.05 0.0 d = 0"
  by (simp add: smoothstep_def clamp_def Let_def max_def min_def divide_le_0_iff)

lemma sentinel_far:
  assumes "0 \<le> s" "0 \<le> t"
  shows "1 \<le> distance_vec2 (s, t) (- 1, - 1)"
proof -
  have "1 \<le> (s + 1)\<^sup>2" using assms by simp
  moreover have "0 \<le> (t + 1)\<^sup>2" by simp
  ultimately have "1 \<le> (s + 1)\<^sup>2 + (t + 1)\<^sup>2" by linarith
  then have "sqrt 1 \<le> sqrt ((s + 1)\<^sup>2 + (t + 1)\<^sup>2)" by (rule real_sqrt_le_mono)
  then show ?thesis by simp
qed

lemma brush_outside: "0.05 \<le> distance_vec2 c (px, py) \<Longrightarrow> brush c (px, py, frc) rs = 0"
  using smoothstep_outside[of "distance_vec2 c (px, py)"] by (simp add: brush_def)

lemma mix_vec4_0: "mix_vec4 v w 0 = v"
  by (cases v, cases w) (simp add: mix_def)

lemma linear_sampler_centre:
  "linear_sampler g ((of_int i + 1 / 2) / 512, (of_int j + 1 / 2) / 512) = texel_at g i j"
proof -
  have x: "(real_of_int k + 1 / 2) / 512 * 512 - 1 / 2 = of_int k" for k
    by (simp add: add_divide_distrib)
  show ?thesis
    unfolding linear_sampler_def prod.case x Let_def floor_of_int
    by (simp add: mix_vec4_0)
qed

lemma linear_sampler_neighbours:
  "linear_sampler g (vec2_add (pixel_centre i j) (0, 1 / 512)) = texel_at g i (j + 1)"
  "linear_sampler g (vec2_sub (pixel_centre i j) (0, 1 / 512)) = texel_at g i (j - 1)"
  "linear_sampler g (vec2_sub (pixel_centre i j) (1 / 512, 0)) = texel_at g (i - 1) j"
  "linear_sampler g (vec2_add (pixel_centre i j) (1 / 512, 0)) = texel_at g (i + 1) j"
proof -
  have a: "(real_of_int i + 1 / 2) / 512 + 1 / 512 = (of_int (i + 1) + 1 / 2) / 512" for i
    by (simp add: field_simps)
  have b: "(real_of_int i + 1 / 2) / 512 - 1 / 512 = (of_int (i - 1) + 1 / 2) / 512" for i
    by (simp add: field_simps)
  show "linear_sampler g (vec2_add (pixel_centre i j) (0, 1 / 512)) = texel_at g i (j + 1)"
    unfolding pixel_centre_def vec2_add.simps a add_0_right by (rule linear_sampler_centre)
  show "linear_sampler g (vec2_sub (pixel_centre i j) (0, 1 / 512)) = texel_at g i (j - 1)"
    unfolding pixel_centre_def vec2_sub.simps b diff_zero by (rule linear_sampler_centre)
  show "linear_sampler g (vec2_sub (pixel_centre i j) (1 / 512, 0)) = texel_at g (i - 1) j"
    unfolding pixel_centre_def vec2_sub.simps b diff_zero by (rule linear_sampler_centre)
  show "linear_sampler g (vec2_add (pixel_centre i j) (1 / 512, 0)) = texel_at g (i + 1) j"
    unfolding pixel_centre_def vec2_add.simps a add_0_right by (rule linear_sampler_centre)
qed

text \<open>
  On the grid the four samples of the simulation shader are the four neighbouring texels
  of the previous buffer, with the edge texel repeated at the border.
\<close>

lemma SimulationShader_at_centre:
  "SimulationShader_fragmentShader
     \<lparr>uPrev = linear_sampler g, uMouse = m, uViscosity = visc, uRippleStrength = rs\<rparr>
     (pixel_centre i j) =
   (let c = ((red (texel_at g i (j + 1)) + red (texel_at g i (j - 1)) +
              red (texel_at g (i - 1) j) + red (texel_at g (i + 1) j)) / 4 +
             brush (pixel_centre i j) m rs) * visc
    in (c, c, c, 1))"
  by (simp add: SimulationShader_fragmentShader_def texture2D_def linear_sampler_neighbours Let_def)

lemma texel_at_in_target: "\<exists>i' j'. in_target i' j' \<and> texel_at g i j = g i' j'"
  unfolding texel_at_def in_target_def
  by (intro exI[of _ "max 0 (min 511 i)"] exI[of _ "max 0 (min 511 j)"]) auto

section \<open>The field update stage\<close>

text \<open>
  C1. For every coordinate \<open>(s, t)\<close>, every previous field, every disturbance
  \<open>(px, py, frc)\<close>, every viscosity and every ripple strength, the value the simulation
  shader writes (to the three colour channels, with alpha 1) is
  \<open>((top + bottom + left + right) / 4 + smoothstep(0.05, 0, dist((s, t), (px, py))) * frc * rs) * visc\<close>,
  with the four samples of the previous field taken one texel (1/512) away along the
  axes: the shader, written in steps, computes what the specification words as
  smoothing, brush and decay, with the decay last and under no condition.
\<close>

theorem field_update_formula:
  "SimulationShader_fragmentShader
     \<lparr>uPrev = prev, uMouse = (px, py, frc), uViscosity = visc, uRippleStrength = rs\<rparr> (s, t) =
   (let top' = red (texture2D prev (s, t + 1 / 512));
        bottom = red (texture2D prev (s, t - 1 / 512));
        left = red (texture2D prev (s - 1 / 512, t));
        right = red (texture2D prev (s + 1 / 512, t));
        smoothed = spec_smoothed top' bottom left right;
        br = spec_brush (distance_vec2 (s, t) (px, py)) frc rs;
        val = spec_value smoothed br visc
    in (val, val, val, 1))"
  by (simp add: SimulationShader_fragmentShader_def brush_def spec_smoothed_def spec_brush_def
      spec_value_def Let_def)

text \<open>
  C5. The brush term is zero at every coordinate whose distance to the disturbance
  position exceeds 0.05, for every force and every ripple strength; and with the
  position at the sentinel \<open>(-1, -1)\<close> it is zero at every coordinate of the unit square.
\<close>

theorem brush_locality:
  "(0.05 < distance_vec2 c (px, py) \<longrightarrow> brush c (px, py, frc) rs = 0) \<and>
   (0 \<le> s \<and> s \<le> 1 \<and> 0 \<le> t \<and> t \<le> 1 \<longrightarrow> brush (s, t) (- 1, - 1, frc) rs = 0)"
proof (intro conjI impI)
  assume "0.05 < distance_vec2 c (px, py)"
  then show "brush c (px, py, frc) rs = 0" by (intro brush_outside) simp
next
  assume "0 \<le> s \<and> s \<le> 1 \<and> 0 \<le> t \<and> t \<le> 1"
  then have "1 \<le> distance_vec2 (s, t) (- 1, - 1)" by (intro sentinel_far) simp_all
  moreover have "(0.05::real) \<le> 1" by simp
  ultimately have "0.05 \<le> distance_vec2 (s, t) (- 1, - 1)" by (rule order_trans[rotated])
  then show "brush (s, t) (- 1, - 1, frc) rs = 0" by (rule brush_outside)
qed

theorem brush_locality_witness:
  "0.05 < distance_vec2 (0, 0) (1, 0) \<and> brush (0, 0) (1, 0, 1) 2 = 0 \<and>
   (0::real) \<le> 1 / 2 \<and> (1 / 2::real) \<le> 1 \<and> brush (1 / 2, 1 / 2) (- 1, - 1, 1) 2 = 0"
  using brush_locality[of "(0, 0)" 1 0 1 2 "1 / 2" "1 / 2"] by simp

section \<open>The hand status mapped to the disturbance\<close>

text \<open>
  C3, as the claim states it, fails: a hand status with \<open>detected\<close> false and
  \<open>pinching\<close> true gets force 1, not 0.
\<close>

theorem mapper_undetected_pinching_counterexample:
  "\<not> detected \<lparr>detected = False, pinching = True, distance = 0, position = (1 / 2, 1 / 2)\<rparr> \<and>
   force \<lparr>detected = False, pinching = True, distance = 0, position = (1 / 2, 1 / 2)\<rparr> = 1"
  by (simp add: force_def)

text \<open>
  C3, amended. For every hand status the position is the sentinel \<open>(-1, -1)\<close> when
  \<open>detected\<close> is false and \<open>(position.x, 1 - position.y)\<close> when it is true; the force
  is 1.0 whenever \<open>pinching\<close> is true, 0.2 when the hand is detected and not pinching,
  and 0 when it is neither detected nor pinching.
\<close>

theorem mapper_total:
  "(mouseX h, mouseY h) =
     (if detected h then (fst (position h), 1 - snd (position h)) else (- 1, - 1)) \<and>
   force h = (if pinching h then 1.0 else if detected h then 0.2 else 0)"
  by (simp add: mouseX_def mouseY_def force_def)

section \<open>The display compositor\<close>

text \<open>The clamp of line 108 keeps the distorted coordinate inside \<open>[0.001, 0.999]\<^sup>2\<close>.\<close>

lemma distortedUv_range:
  "0.001 \<le> fst (display_distortedUv u vUv) \<and> fst (display_distortedUv u vUv) \<le> 0.999 \<and>
   0.001 \<le> snd (display_distortedUv u vUv) \<and> snd (display_distortedUv u vUv) \<le> 0.999"
proof -
  have b: "\<And>v. (0.001::real) \<le> clamp v 0.001 0.999 \<and> clamp v 0.001 0.999 \<le> 0.999"
    by (rule clamp_bounds) simp
  obtain s t where uv: "vUv = (s, t)" by (cases vUv) auto
  obtain nx ny nz where n: "display_normal u (s, t) = (nx, ny, nz)"
    by (cases "display_normal u (s, t)") auto
  show ?thesis
    using b[of "s - nx * uRefraction u * uDistortion u"] b[of "t - ny * uRefraction u * uDistortion u"]
    by (simp add: display_distortedUv_def n uv)
qed

lemma edge_height: "display_height edge_uniforms vUv = 1 / 2"
  by (simp add: display_height_def edge_uniforms_def flat_half_def texture2D_def)

text \<open>
  C7. With \<open>(fr, fg, fb)\<close> the colour \<open>camColor.rgb + highlight * height\<close> of line 118:
  when the height is at most 0.1 the red and blue outputs are \<open>fr\<close> and \<open>fb\<close>; when it
  is above 0.1 they are the even blends of \<open>fr\<close> and \<open>fb\<close> with the red and blue of the
  camera texture 0.002 to the right and to the left of the distorted coordinate; the
  green output is \<open>fg\<close> in both cases.
\<close>

theorem chromatic_gating:
  "(case display_mixed u vUv of (fr, fg, fb) \<Rightarrow>
     (display_height u vUv \<le> 0.1 \<longrightarrow>
        red (DisplayShader_fragmentShader u vUv) = fr \<and>
        blue (DisplayShader_fragmentShader u vUv) = fb) \<and>
     (display_height u vUv > 0.1 \<longrightarrow>
        red (DisplayShader_fragmentShader u vUv) =
          (fr + red (texture2D (uTexture u) (vec2_add (display_distortedUv u vUv) (0.002, 0)))) / 2 \<and>
        blue (DisplayShader_fragmentShader u vUv) =
          (fb + blue (texture2D (uTexture u) (vec2_sub (display_distortedUv u vUv) (0.002, 0)))) / 2) \<and>
     green (DisplayShader_fragmentShader u vUv) = fg)"
  by (cases "display_mixed u vUv")
     (simp add: DisplayShader_fragmentShader_def Let_def mix_def add_divide_distrib)

theorem chromatic_gating_witness:
  "display_height (edge_uniforms\<lparr>uData := null_sampler\<rparr>) (1 / 4, 3 / 4) \<le> 0.1 \<and>
   (case display_mixed (edge_uniforms\<lparr>uData := null_sampler\<rparr>) (1 / 4, 3 / 4) of (fr, fg, fb) \<Rightarrow>
      rgb (DisplayShader_fragmentShader (edge_uniforms\<lparr>uData := null_sampler\<rparr>) (1 / 4, 3 / 4))
        = (fr, fg, fb)) \<and>
   display_height edge_uniforms (1 / 4, 3 / 4) > 0.1 \<and>
   (case display_mixed edge_uniforms (1 / 4, 3 / 4) of (fr, fg, fb) \<Rightarrow>
      rgb (DisplayShader_fragmentShader edge_uniforms (1 / 4, 3 / 4)) = ((fr + 0) / 2, fg, (fb + 0) / 2))"
proof -
  have lo: "display_height (edge_uniforms\<lparr>uData := null_sampler\<rparr>) (1 / 4, 3 / 4) = 0"
    by (simp add: display_height_def null_sampler_def texture2D_def)
  have hi: "display_height edge_uniforms (1 / 4, 3 / 4) = 1 / 2"
    by (rule edge_height)
  have tex: "\<And>c. texture2D (uTexture edge_uniforms) c = (0, 0, 0, 1)"
    by (simp add: edge_uniforms_def null_sampler_def texture2D_def)
  show ?thesis
    using chromatic_gating[of "edge_uniforms\<lparr>uData := null_sampler\<rparr>" "(1 / 4, 3 / 4)"]
      chromatic_gating[of edge_uniforms "(1 / 4, 3 / 4)"]
    apply (simp only: lo hi)
    apply (cases "display_mixed (edge_uniforms\<lparr>uData := null_sampler\<rparr>) (1 / 4, 3 / 4)")
    apply (cases "display_mixed edge_uniforms (1 / 4, 3 / 4)")
    apply (cases "DisplayShader_fragmentShader edge_uniforms (1 / 4, 3 / 4)")
    apply (cases "DisplayShader_fragmentShader (edge_uniforms\<lparr>uData := null_sampler\<rparr>) (1 / 4, 3 / 4)")
    apply (simp add: tex)
    done
qed

lemma display_height_cong:
  "uData u1 = uData u2 \<Longrightarrow> display_height u1 vUv = display_height u2 vUv"
  by (simp add: display_height_def)

lemma display_normal_cong:
  "uData u1 = uData u2 \<Longrightarrow> display_normal u1 vUv = display_normal u2 vUv"
  by (simp add: display_normal_def display_height_def)

lemma display_distortedUv_cong:
  assumes "uData u1 = uData u2" "uRefraction u1 = uRefraction u2" "uDistortion u1 = uDistortion u2"
  shows "display_distortedUv u1 vUv = display_distortedUv u2 vUv"
  unfolding display_distortedUv_def display_normal_cong[OF assms(1)] assms(2) assms(3)
  by (rule refl)

lemma display_mixed_cong:
  assumes "uTexture u1 = uTexture u2" "uData u1 = uData u2" "uRefraction u1 = uRefraction u2"
    "uReflection u1 = uReflection u2" "uDistortion u1 = uDistortion u2"
  shows "display_mixed u1 vUv = display_mixed u2 vUv"
  unfolding display_mixed_def display_normal_cong[OF assms(2)] display_height_cong[OF assms(2)]
    display_distortedUv_cong[OF assms(2,3,5)] assms(1) assms(4)
  by (rule refl)

lemma DisplayShader_cong:
  assumes "uTexture u1 = uTexture u2" "uData u1 = uData u2" "uRefraction u1 = uRefraction u2"
    "uReflection u1 = uReflection u2" "uDistortion u1 = uDistortion u2"
  shows "DisplayShader_fragmentShader u1 vUv = DisplayShader_fragmentShader u2 vUv"
  unfolding DisplayShader_fragmentShader_def display_mixed_cong[OF assms]
    display_height_cong[OF assms(2)] display_distortedUv_cong[OF assms(2,3,5)] assms(1)
  by (rule refl)

text \<open>
  C8. Two runs of the display shader whose uniforms agree on the camera texture, the
  field, the refraction, the reflection and the distortion give the same colour at every
  coordinate, whatever the remaining uniform \<^verbatim>\<open>uTime\<close> holds in each.
\<close>

theorem display_deterministic:
  "uTexture u1 = uTexture u2 \<and> uData u1 = uData u2 \<and> uRefraction u1 = uRefraction u2 \<and>
   uReflection u1 = uReflection u2 \<and> uDistortion u1 = uDistortion u2 \<longrightarrow>
   DisplayShader_fragmentShader u1 vUv = DisplayShader_fragmentShader u2 vUv"
  by (intro impI DisplayShader_cong) simp_all

theorem display_deterministic_witness:
  "uTime (edge_uniforms\<lparr>uTime := 7\<rparr>) \<noteq> uTime edge_uniforms \<and>
   DisplayShader_fragmentShader (edge_uniforms\<lparr>uTime := 7\<rparr>) (1 / 4, 3 / 4) =
   DisplayShader_fragmentShader edge_uniforms (1 / 4, 3 / 4)"
  using display_deterministic[of "edge_uniforms\<lparr>uTime := 7\<rparr>" edge_uniforms "(1 / 4, 3 / 4)"]
  by (simp add: edge_uniforms_def)

section \<open>The frame callback and the frame loop\<close>

lemma useFrame_mounted:
  assumes "simMaterial s = Some sm" "displayMaterial s = Some dm"
  shows "useFrame params h t s =
    (setRenderTarget_render (currentFBO s)
       (render_target (SimulationShader_fragmentShader
          \<lparr>uPrev = linear_sampler (contents s (prevFBO s)),
           uMouse = (mouseX h, mouseY h, force h),
           uViscosity = viscosity params, uRippleStrength = rippleStrength params\<rparr>)) s)
     \<lparr>simMaterial := Some (sm\<lparr>uPrev := Some (prevFBO s),
                                uMouse := (mouseX h, mouseY h, force h),
                                uViscosity := viscosity params,
                                uRippleStrength := rippleStrength params\<rparr>),
      displayMaterial := Some ((case videoTexture s of Some tex \<Rightarrow> dm\<lparr>uTexture := Some tex\<rparr> | None \<Rightarrow> dm)
                               \<lparr>uData := Some (currentFBO s),
                                uRefraction := refractionIndex params,
                                uReflection := reflectionIntensity params,
                                uDistortion := distortionStrength params,
                                uTime := t * speed params\<rparr>),
      swap := \<not> swap s\<rparr>"
  by (simp add: useFrame_def assms Let_def bind_sim_def bind_field_def)

lemma useFrame_unmounted:
  "simMaterial s = None \<or> displayMaterial s = None \<Longrightarrow> useFrame params h t s = s"
  by (auto simp add: useFrame_def split: option.splits)

lemma current_neq_prev: "currentFBO s \<noteq> prevFBO s"
  by (simp add: currentFBO_def prevFBO_def)

lemma contents_render_same: "contents (setRenderTarget_render r g s) r = g"
  by (cases r) simp_all

lemma contents_render_other: "r' \<noteq> r \<Longrightarrow> contents (setRenderTarget_render r g s) r' = contents s r'"
  by (cases r; cases r') simp_all

lemma contents_upd:
  "contents (s\<lparr>simMaterial := a, displayMaterial := b, swap := c\<rparr>) r = contents s r"
  by (cases r) simp_all

lemma render_keeps:
  "simMaterial (setRenderTarget_render r g s) = simMaterial s"
  "displayMaterial (setRenderTarget_render r g s) = displayMaterial s"
  "videoTexture (setRenderTarget_render r g s) = videoTexture s"
  "swap (setRenderTarget_render r g s) = swap s"
  by (cases r; simp)+

lemma useFrame_facts:
  assumes "simMaterial s = Some sm" "displayMaterial s = Some dm"
  shows "swap (useFrame p h t s) = (\<not> swap s)"
    and "videoTexture (useFrame p h t s) = videoTexture s"
    and "contents (useFrame p h t s) (currentFBO s) =
           render_target (SimulationShader_fragmentShader (sim_step_uniforms p h s))"
    and "contents (useFrame p h t s) (prevFBO s) = contents s (prevFBO s)"
    and "simMaterial (useFrame p h t s) =
           Some (sm\<lparr>uPrev := Some (prevFBO s), uMouse := (mouseX h, mouseY h, force h),
                    uViscosity := viscosity p, uRippleStrength := rippleStrength p\<rparr>)"
    and "displayMaterial (useFrame p h t s) =
           Some ((case videoTexture s of Some tex \<Rightarrow> dm\<lparr>uTexture := Some tex\<rparr> | None \<Rightarrow> dm)
                   \<lparr>uData := Some (currentFBO s), uRefraction := refractionIndex p,
                    uReflection := reflectionIntensity p, uDistortion := distortionStrength p,
                    uTime := t * speed p\<rparr>)"
  unfolding useFrame_mounted[OF assms] sim_step_uniforms_def
  using current_neq_prev[of s]
  by (simp_all add: render_keeps contents_upd contents_render_same contents_render_other)

lemma useFrame_roles:
  assumes "simMaterial s = Some sm" "displayMaterial s = Some dm"
  shows "prevFBO (useFrame p h t s) = currentFBO s" "currentFBO (useFrame p h t s) = prevFBO s"
  using useFrame_facts(1)[OF assms, of p h t] by (simp_all add: prevFBO_def currentFBO_def)

text \<open>
  C2. In a frame with both materials mounted the simulation pass reads the buffer
  \<open>prevFBO\<close> and writes the other one, \<open>currentFBO\<close>: the written buffer is the render
  of the shader over the contents the read buffer had before the frame, and the read
  buffer is left as it was. The display material of the same frame points at the buffer
  just written. In the next frame the roles are exchanged: its simulation pass reads
  exactly the buffer this frame wrote.
\<close>

theorem ping_pong:
  "simMaterial s \<noteq> None \<and> displayMaterial s \<noteq> None \<longrightarrow>
   (let s1 = useFrame p1 h1 t1 s; s2 = useFrame p2 h2 t2 s1 in
      currentFBO s \<noteq> prevFBO s \<and>
      map_option uPrev (simMaterial s1) = Some (Some (prevFBO s)) \<and>
      contents s1 (currentFBO s) =
        render_target (SimulationShader_fragmentShader (sim_step_uniforms p1 h1 s)) \<and>
      contents s1 (prevFBO s) = contents s (prevFBO s) \<and>
      map_option uData (displayMaterial s1) = Some (Some (currentFBO s)) \<and>
      map_option (\<lambda>d. uData (bind_display s1 d)) (displayMaterial s1) =
        Some (linear_sampler (contents s1 (currentFBO s))) \<and>
      prevFBO s1 = currentFBO s \<and>
      map_option uPrev (simMaterial s2) = Some (Some (currentFBO s)) \<and>
      contents s2 (currentFBO s1) =
        render_target (SimulationShader_fragmentShader (sim_step_uniforms p2 h2 s1)) \<and>
      uPrev (sim_step_uniforms p2 h2 s1) = linear_sampler (contents s1 (currentFBO s)))"
proof (cases "simMaterial s \<noteq> None \<and> displayMaterial s \<noteq> None")
  case False
  then show ?thesis by blast
next
  case True
  then obtain sm dm where m: "simMaterial s = Some sm" "displayMaterial s = Some dm" by auto
  define s1 where "s1 = useFrame p1 h1 t1 s"
  note f = useFrame_facts[OF m, of p1 h1 t1, folded s1_def]
  note r = useFrame_roles[OF m, of p1 h1 t1, folded s1_def]
  note g = useFrame_facts[OF f(5) f(6), of p2 h2 t2]
  have 1: "map_option uPrev (simMaterial s1) = Some (Some (prevFBO s))" by (simp add: f(5))
  have 2: "map_option uData (displayMaterial s1) = Some (Some (currentFBO s))" by (simp add: f(6))
  have 3: "map_option uPrev (simMaterial (useFrame p2 h2 t2 s1)) = Some (Some (currentFBO s))"
    by (simp add: g(5) r(1))
  have 4: "uPrev (sim_step_uniforms p2 h2 s1) = linear_sampler (contents s1 (currentFBO s))"
    by (simp add: sim_step_uniforms_def r(1))
  have 5: "map_option (\<lambda>d. uData (bind_display s1 d)) (displayMaterial s1) =
        Some (linear_sampler (contents s1 (currentFBO s)))"
    by (simp add: f(6) bind_display_def bind_field_def)
  show ?thesis
    unfolding Let_def s1_def[symmetric]
    using current_neq_prev[of s] 1 f(3) f(4) 2 5 r(1) 3 g(3) 4 by blast
qed

theorem ping_pong_witness:
  "simMaterial (mounted None) \<noteq> None \<and> displayMaterial (mounted None) \<noteq> None \<and>
   prevFBO (mounted None) = FboA_texture \<and> currentFBO (mounted None) = FboB_texture \<and>
   (let s1 = useFrame DEFAULT_PARAMS handStatus_pinch 0 (mounted None);
        s2 = useFrame DEFAULT_PARAMS handStatus_init 1 s1 in
      currentFBO (mounted None) \<noteq> prevFBO (mounted None) \<and>
      map_option uPrev (simMaterial s1) = Some (Some (prevFBO (mounted None))) \<and>
      contents s1 (currentFBO (mounted None)) =
        render_target (SimulationShader_fragmentShader
          (sim_step_uniforms DEFAULT_PARAMS handStatus_pinch (mounted None))) \<and>
      contents s1 (prevFBO (mounted None)) = contents (mounted None) (prevFBO (mounted None)) \<and>
      map_option uData (displayMaterial s1) = Some (Some (currentFBO (mounted None))) \<and>
      map_option (\<lambda>d. uData (bind_display s1 d)) (displayMaterial s1) =
        Some (linear_sampler (contents s1 (currentFBO (mounted None)))) \<and>
      prevFBO s1 = currentFBO (mounted None) \<and>
      map_option uPrev (simMaterial s2) = Some (Some (currentFBO (mounted None))) \<and>
      contents s2 (currentFBO s1) =
        render_target (SimulationShader_fragmentShader
          (sim_step_uniforms DEFAULT_PARAMS handStatus_init s1)) \<and>
      uPrev (sim_step_uniforms DEFAULT_PARAMS handStatus_init s1) =
        linear_sampler (contents s1 (currentFBO (mounted None))))"
proof -
  have m: "simMaterial (mounted None) \<noteq> None \<and> displayMaterial (mounted None) \<noteq> None"
    by (simp add: mounted_def)
  have r: "prevFBO (mounted None) = FboA_texture \<and> currentFBO (mounted None) = FboB_texture"
    by (simp add: prevFBO_def currentFBO_def mounted_def)
  show ?thesis
    using ping_pong[of "mounted None" DEFAULT_PARAMS handStatus_pinch 0 DEFAULT_PARAMS
        handStatus_init 1] m r
    by blast
qed

lemma useFrame_field:
  assumes "simMaterial s = Some sm" "displayMaterial s = Some dm" "in_target i j"
  shows "field (useFrame p h t s) i j =
    ((red (texel_at (contents s (prevFBO s)) i (j + 1)) +
      red (texel_at (contents s (prevFBO s)) i (j - 1)) +
      red (texel_at (contents s (prevFBO s)) (i - 1) j) +
      red (texel_at (contents s (prevFBO s)) (i + 1) j)) / 4 +
     brush (pixel_centre i j) (mouseX h, mouseY h, force h) (rippleStrength p)) * viscosity p"
proof -
  have "field (useFrame p h t s) i j =
        red (SimulationShader_fragmentShader (sim_step_uniforms p h s) (pixel_centre i j))"
    unfolding field_def useFrame_roles(1)[OF assms(1,2)] useFrame_facts(3)[OF assms(1,2)]
    by (simp add: render_target_def assms(3))
  then show ?thesis
    unfolding sim_step_uniforms_def SimulationShader_at_centre by (simp add: Let_def)
qed

lemma texel_at_uniform:
  assumes "\<forall>i j. in_target i j \<longrightarrow> red (g i j) = v"
  shows "red (texel_at g i j) = v"
  using texel_at_in_target[of g i j] assms by auto

lemma brush_no_force: "brush c (px, py, 0) rs = 0"
  by (simp add: brush_def)

lemma useFrame_uniform:
  assumes "simMaterial s = Some sm" "displayMaterial s = Some dm"
    and "\<forall>i j. in_target i j \<longrightarrow> field s i j = v" and "force h = 0"
  shows "\<forall>i j. in_target i j \<longrightarrow> field (useFrame p h t s) i j = v * viscosity p"
proof (intro allI impI)
  fix i j assume t: "in_target i j"
  have u: "\<forall>i j. in_target i j \<longrightarrow> red (contents s (prevFBO s) i j) = v"
    using assms(3) by (simp add: field_def)
  show "field (useFrame p h t s) i j = v * viscosity p"
    unfolding useFrame_field[OF assms(1,2) t] texel_at_uniform[OF u] assms(4) brush_no_force
    by simp
qed

lemma useFrame_stays_mounted:
  assumes "simMaterial s \<noteq> None \<and> displayMaterial s \<noteq> None"
  shows "simMaterial (useFrame p h t s) \<noteq> None \<and> displayMaterial (useFrame p h t s) \<noteq> None"
proof -
  obtain sm dm where m: "simMaterial s = Some sm" "displayMaterial s = Some dm"
    using assms by auto
  show ?thesis by (simp add: useFrame_facts(5,6)[OF m])
qed

lemma frames_uniform:
  assumes "simMaterial s \<noteq> None \<and> displayMaterial s \<noteq> None"
    and "\<forall>i j. in_target i j \<longrightarrow> field s i j = v"
    and "\<forall>(p, h, t) \<in> set inputs. force h = 0 \<and> viscosity p = visc"
  shows "\<forall>i j. in_target i j \<longrightarrow> field (frames inputs s) i j = v * visc ^ length inputs"
  using assms
proof (induction inputs arbitrary: s v)
  case Nil
  then show ?case by simp
next
  case (Cons x xs)
  obtain p h t where x: "x = (p, h, t)" by (cases x) auto
  obtain sm dm where m: "simMaterial s = Some sm" "displayMaterial s = Some dm"
    using Cons.prems(1) by auto
  have fh: "force h = 0" and vp: "viscosity p = visc" using Cons.prems(3) x by auto
  have u: "\<forall>i j. in_target i j \<longrightarrow> field (useFrame p h t s) i j = v * visc"
    using useFrame_uniform[OF m Cons.prems(2) fh, of p t] vp by simp
  have r: "\<forall>(p, h, t) \<in> set xs. force h = 0 \<and> viscosity p = visc"
    using Cons.prems(3) by simp
  have "\<forall>i j. in_target i j \<longrightarrow>
          field (frames xs (useFrame p h t s)) i j = v * visc * visc ^ length xs"
    by (rule Cons.IH[OF useFrame_stays_mounted[OF Cons.prems(1)] u r])
  then show ?case by (simp add: x mult.assoc)
qed

text \<open>
  C4, amended. Over a uniform field (every cell \<open>v0\<close>), with both materials mounted, a
  run of frames with zero force and viscosity \<open>visc\<close> leaves every cell at
  \<open>v0 * visc ^ k\<close> after \<open>k\<close> frames, which tends to 0 when \<open>\<bar>visc\<bar> < 1\<close>; so a
  field of 0.5 everywhere is 0.48 everywhere after one frame at viscosity 0.96.
\<close>

theorem uniform_decay:
  "simMaterial s \<noteq> None \<and> displayMaterial s \<noteq> None \<and>
   (\<forall>i j. in_target i j \<longrightarrow> field s i j = v0) \<and>
   (\<forall>n. case inp n of (p, h, t) \<Rightarrow> force h = 0 \<and> viscosity p = visc) \<longrightarrow>
   (\<forall>k i j. in_target i j \<longrightarrow> field (frames (map inp [0..<k]) s) i j = v0 * visc ^ k) \<and>
   (\<bar>visc\<bar> < 1 \<longrightarrow>
      (\<forall>i j. in_target i j \<longrightarrow> (\<lambda>k. field (frames (map inp [0..<k]) s) i j) \<longlonglongrightarrow> 0))"
proof (intro impI)
  assume a: "simMaterial s \<noteq> None \<and> displayMaterial s \<noteq> None \<and>
   (\<forall>i j. in_target i j \<longrightarrow> field s i j = v0) \<and>
   (\<forall>n. case inp n of (p, h, t) \<Rightarrow> force h = 0 \<and> viscosity p = visc)"
  have eq: "field (frames (map inp [0..<k]) s) i j = v0 * visc ^ k" if "in_target i j" for k i j
  proof -
    have "\<forall>(p, h, t) \<in> set (map inp [0..<k]). force h = 0 \<and> viscosity p = visc"
      using a by auto
    from frames_uniform[OF _ _ this, of s v0] a that show ?thesis by simp
  qed
  have lim: "(\<lambda>k. field (frames (map inp [0..<k]) s) i j) \<longlonglongrightarrow> 0"
    if "in_target i j" "\<bar>visc\<bar> < 1" for i j
  proof -
    have "(\<lambda>k. visc ^ k) \<longlonglongrightarrow> 0" using that(2) by (intro LIMSEQ_power_zero) simp
    then have "(\<lambda>k. v0 * visc ^ k) \<longlonglongrightarrow> v0 * 0" by (rule tendsto_mult_left)
    then show ?thesis by (simp add: eq[OF that(1)])
  qed
  show "(\<forall>k i j. in_target i j \<longrightarrow> field (frames (map inp [0..<k]) s) i j = v0 * visc ^ k) \<and>
   (\<bar>visc\<bar> < 1 \<longrightarrow>
      (\<forall>i j. in_target i j \<longrightarrow> (\<lambda>k. field (frames (map inp [0..<k]) s) i j) \<longlonglongrightarrow> 0))"
    using eq lim by blast
qed

lemma idle_no_force: "case idle n of (p, h, t) \<Rightarrow> force h = 0 \<and> viscosity p = 24 / 25"
  by (simp add: idle_def force_def handStatus_init_def DEFAULT_PARAMS_def)

lemma half_field: "field ((mounted None)\<lparr>fboA := uniform_image (1 / 2)\<rparr>) i j = 1 / 2"
  by (simp add: field_def prevFBO_def mounted_def uniform_image_def)

theorem uniform_decay_witness:
  "simMaterial ((mounted None)\<lparr>fboA := uniform_image 0.5\<rparr>) \<noteq> None \<and>
   displayMaterial ((mounted None)\<lparr>fboA := uniform_image 0.5\<rparr>) \<noteq> None \<and>
   in_target 7 9 \<and> field ((mounted None)\<lparr>fboA := uniform_image 0.5\<rparr>) 7 9 = 0.5 \<and>
   force handStatus_init = 0 \<and> viscosity DEFAULT_PARAMS = 0.96 \<and>
   field (frames [idle 0] ((mounted None)\<lparr>fboA := uniform_image 0.5\<rparr>)) 7 9 = 0.48 \<and>
   (\<lambda>k. field (frames (map idle [0..<k]) ((mounted None)\<lparr>fboA := uniform_image 0.5\<rparr>)) 7 9)
     \<longlonglongrightarrow> 0"
proof -
  have m: "simMaterial ((mounted None)\<lparr>fboA := uniform_image (1 / 2)\<rparr>) \<noteq> None \<and>
           displayMaterial ((mounted None)\<lparr>fboA := uniform_image (1 / 2)\<rparr>) \<noteq> None"
    by (simp add: mounted_def)
  have one: "map idle [0..<1] = [idle 0]" by simp
  have v: "\<bar>24 / 25 :: real\<bar> < 1" by simp
  have h: "\<forall>i j. in_target i j \<longrightarrow> field ((mounted None)\<lparr>fboA := uniform_image (1 / 2)\<rparr>) i j = 1 / 2"
    by (simp add: half_field)
  have n: "\<forall>n. case idle n of (p, h, t) \<Rightarrow> force h = 0 \<and> viscosity p = 24 / 25"
    using idle_no_force by blast
  from uniform_decay[of "(mounted None)\<lparr>fboA := uniform_image (1 / 2)\<rparr>" "1 / 2" "24 / 25" idle]
    m h n v
  have c1: "\<forall>k i j. in_target i j \<longrightarrow>
      field (frames (map idle [0..<k]) ((mounted None)\<lparr>fboA := uniform_image (1 / 2)\<rparr>)) i j
        = 1 / 2 * (24 / 25) ^ k"
    and c2: "\<forall>i j. in_target i j \<longrightarrow>
      (\<lambda>k. field (frames (map idle [0..<k]) ((mounted None)\<lparr>fboA := uniform_image (1 / 2)\<rparr>)) i j)
        \<longlonglongrightarrow> 0"
    by blast+
  have c3: "\<forall>i j. in_target i j \<longrightarrow>
      field (frames [idle 0] ((mounted None)\<lparr>fboA := uniform_image (1 / 2)\<rparr>)) i j = 12 / 25"
    using c1[rule_format, of _ _ 1] unfolding one by simp
  have t: "in_target 7 9" by (simp add: in_target_def)
  have fv: "force handStatus_init = 0 \<and> viscosity DEFAULT_PARAMS = 24 / 25"
    using idle_no_force[of 0] by (simp add: idle_def)
  show ?thesis using m t fv half_field[of 7 9] c3[rule_format, OF t] c2[rule_format, OF t] by simp
qed

lemma clamp_unit: "0 \<le> clamp v 0 1 \<and> clamp v 0 1 \<le> 1"
  by (rule clamp_bounds) simp

lemma smoothstep_nonneg: "0 \<le> smoothstep e0 e1 v"
proof -
  define t where "t = clamp ((v - e0) / (e1 - e0)) 0 1"
  have "0 \<le> t" "t \<le> 1" using clamp_unit[of "(v - e0) / (e1 - e0)"] by (simp_all add: t_def)
  then have "0 \<le> t * t" "0 \<le> 3 - 2 * t" by simp_all
  then have "0 \<le> t * t * (3 - 2 * t)" by (rule mult_nonneg_nonneg)
  then show ?thesis by (simp add: smoothstep_def t_def Let_def)
qed

lemma brush_nonneg: "0 \<le> frc \<Longrightarrow> 0 \<le> rs \<Longrightarrow> 0 \<le> brush c (px, py, frc) rs"
  using smoothstep_nonneg[of "1 / 20" 0 "distance_vec2 c (px, py)"] by (simp add: brush_def)

lemma force_nonneg: "0 \<le> force h"
  by (simp add: force_def)

lemma texel_at_nonneg:
  assumes "\<forall>i j. in_target i j \<longrightarrow> 0 \<le> red (g i j)"
  shows "0 \<le> red (texel_at g i j)"
  using texel_at_in_target[of g i j] assms by auto

lemma update_nonneg:
  assumes "\<forall>i j. in_target i j \<longrightarrow> 0 \<le> red (prev i j)" "0 \<le> frc" "0 \<le> rs" "0 \<le> visc"
    and "in_target i j"
  shows "0 \<le> red (render_target (SimulationShader_fragmentShader
           \<lparr>uPrev = linear_sampler prev, uMouse = (px, py, frc), uViscosity = visc,
            uRippleStrength = rs\<rparr>) i j)"
proof -
  have n: "0 \<le> red (texel_at prev a b)" for a b by (rule texel_at_nonneg[OF assms(1)])
  have "0 \<le> (red (texel_at prev i (j + 1)) + red (texel_at prev i (j - 1)) +
              red (texel_at prev (i - 1) j) + red (texel_at prev (i + 1) j)) / 4 +
             brush (pixel_centre i j) (px, py, frc) rs"
    using n[of i "j + 1"] n[of i "j - 1"] n[of "i - 1" j] n[of "i + 1" j]
      brush_nonneg[OF assms(2,3), of "pixel_centre i j" px py] by simp
  then have "0 \<le> ((red (texel_at prev i (j + 1)) + red (texel_at prev i (j - 1)) +
              red (texel_at prev (i - 1) j) + red (texel_at prev (i + 1) j)) / 4 +
             brush (pixel_centre i j) (px, py, frc) rs) * visc"
    using assms(4) by (rule mult_nonneg_nonneg)
  then show ?thesis
    unfolding render_target_def SimulationShader_at_centre using assms(5) by (simp add: Let_def)
qed

lemma ref_cases: "r = currentFBO s \<or> r = prevFBO s"
  by (cases r) (simp_all add: currentFBO_def prevFBO_def)

lemma useFrame_nonneg:
  assumes "nonneg_buffers s" "0 \<le> rippleStrength p" "0 \<le> viscosity p"
  shows "nonneg_buffers (useFrame p h t s)"
proof (cases "simMaterial s = None \<or> displayMaterial s = None")
  case True
  then show ?thesis using assms(1) by (simp add: useFrame_unmounted)
next
  case False
  then obtain sm dm where m: "simMaterial s = Some sm" "displayMaterial s = Some dm" by auto
  have prev: "\<forall>i j. in_target i j \<longrightarrow> 0 \<le> red (contents s (prevFBO s) i j)"
    using assms(1) by (simp add: nonneg_buffers_def)
  have "0 \<le> red (contents (useFrame p h t s) r i j)" if t: "in_target i j" for r i j
  proof (cases "r = currentFBO s")
    case True
    show ?thesis
      unfolding True useFrame_facts(3)[OF m] sim_step_uniforms_def
      by (rule update_nonneg[OF prev force_nonneg assms(2,3) t])
  next
    case False
    then have "r = prevFBO s" using ref_cases[of r s] by simp
    then show ?thesis using prev t by (simp add: useFrame_facts(4)[OF m])
  qed
  then show ?thesis by (simp add: nonneg_buffers_def)
qed

lemma frames_nonneg:
  assumes "nonneg_buffers s" "\<forall>(p, h, t) \<in> set inputs. 0 \<le> rippleStrength p \<and> 0 \<le> viscosity p"
  shows "nonneg_buffers (frames inputs s)"
  using assms
proof (induction inputs arbitrary: s)
  case Nil
  then show ?case by simp
next
  case (Cons x xs)
  obtain p h t where x: "x = (p, h, t)" by (cases x) auto
  have "nonneg_buffers (useFrame p h t s)"
    using Cons.prems x by (intro useFrame_nonneg) auto
  then have "nonneg_buffers (frames xs (useFrame p h t s))"
    using Cons.prems(2) by (intro Cons.IH) auto
  then show ?case by (simp add: x)
qed

lemma mounted_nonneg: "nonneg_buffers (mounted video)"
  unfolding nonneg_buffers_def
proof (intro allI impI)
  fix r :: texture_ref and i j :: int
  show "0 \<le> red (contents (mounted video) r i j)"
    by (cases r) (simp_all add: mounted_def cleared_def)
qed

text \<open>
  C10. If every cell of the previous field is nonnegative and the force, the ripple
  strength and the viscosity are nonnegative, every cell the update writes is
  nonnegative; and from the cleared buffers, every cell of the field is nonnegative
  after any run of frames whose ripple strength and viscosity are nonnegative (the
  force the hand status maps to is never negative).
\<close>

theorem field_nonnegative:
  "((\<forall>i j. in_target i j \<longrightarrow> 0 \<le> red (prev i j)) \<and> 0 \<le> frc \<and> 0 \<le> rs \<and> 0 \<le> visc \<longrightarrow>
    (\<forall>i j. in_target i j \<longrightarrow>
       0 \<le> red (render_target (SimulationShader_fragmentShader
              \<lparr>uPrev = linear_sampler prev, uMouse = (px, py, frc), uViscosity = visc,
               uRippleStrength = rs\<rparr>) i j))) \<and>
   ((\<forall>(p, h, t) \<in> set inputs. 0 \<le> rippleStrength p \<and> 0 \<le> viscosity p) \<longrightarrow>
    (\<forall>i j. in_target i j \<longrightarrow> 0 \<le> field (frames inputs (mounted video)) i j))"
proof (intro conjI impI allI)
  fix i j
  assume "(\<forall>i j. in_target i j \<longrightarrow> 0 \<le> red (prev i j)) \<and> 0 \<le> frc \<and> 0 \<le> rs \<and> 0 \<le> visc"
    and "in_target i j"
  then show "0 \<le> red (render_target (SimulationShader_fragmentShader
              \<lparr>uPrev = linear_sampler prev, uMouse = (px, py, frc), uViscosity = visc,
               uRippleStrength = rs\<rparr>) i j)"
    by (intro update_nonneg) simp_all
next
  fix i j
  assume "\<forall>(p, h, t) \<in> set inputs. 0 \<le> rippleStrength p \<and> 0 \<le> viscosity p"
    and t: "in_target i j"
  then have "nonneg_buffers (frames inputs (mounted video))"
    by (intro frames_nonneg mounted_nonneg)
  then show "0 \<le> field (frames inputs (mounted video)) i j"
    using t by (simp add: nonneg_buffers_def field_def)
qed

theorem field_nonnegative_witness:
  "in_target 256 256 \<and> 0 \<le> red (cleared 256 256) \<and>
   0 \<le> rippleStrength DEFAULT_PARAMS \<and> 0 \<le> viscosity DEFAULT_PARAMS \<and>
   0 \<le> red (render_target (SimulationShader_fragmentShader
            \<lparr>uPrev = linear_sampler cleared, uMouse = (0.5, 0.5, 1), uViscosity = 0.96,
             uRippleStrength = 0.6\<rparr>) 256 256) \<and>
   0 \<le> field (frames [(DEFAULT_PARAMS, handStatus_pinch, 0), (DEFAULT_PARAMS, handStatus_init, 1)]
                 (mounted None)) 256 256"
proof -
  have t: "in_target 256 256" by (simp add: in_target_def)
  have c: "\<forall>i j. in_target i j \<longrightarrow> 0 \<le> red (cleared i j)" by (simp add: cleared_def)
  have d: "0 \<le> rippleStrength DEFAULT_PARAMS \<and> 0 \<le> viscosity DEFAULT_PARAMS"
    by (simp add: DEFAULT_PARAMS_def)
  then have p: "\<forall>(p, h, t) \<in> set [(DEFAULT_PARAMS, handStatus_pinch, 0), (DEFAULT_PARAMS, handStatus_init, 1)].
      0 \<le> rippleStrength p \<and> 0 \<le> viscosity p"
    by simp
  have n: "(0::real) \<le> 1 \<and> (0::real) \<le> 0.6 \<and> (0::real) \<le> 0.96" by simp
  from field_nonnegative[of cleared 1 "0.6" "0.96" "0.5" "0.5"
      "[(DEFAULT_PARAMS, handStatus_pinch, 0), (DEFAULT_PARAMS, handStatus_init, 1)]" None]
    c p n t
  have "0 \<le> red (render_target (SimulationShader_fragmentShader
            \<lparr>uPrev = linear_sampler cleared, uMouse = (0.5, 0.5, 1), uViscosity = 0.96,
             uRippleStrength = 0.6\<rparr>) 256 256)"
    and "0 \<le> field (frames [(DEFAULT_PARAMS, handStatus_pinch, 0), (DEFAULT_PARAMS, handStatus_init, 1)]
                 (mounted None)) 256 256"
    by blast+
  then show ?thesis using t c d by blast
qed

lemma same_contents: "same_but_uTime s s' \<Longrightarrow> contents s r = contents s' r"
  by (cases r) (simp_all add: same_but_uTime_def)

lemma same_bind_field: "same_but_uTime s s' \<Longrightarrow> bind_field s r = bind_field s' r"
  using same_contents[of s s'] by (cases r) (simp_all add: bind_field_def)

lemma same_roles:
  "same_but_uTime s s' \<Longrightarrow> prevFBO s = prevFBO s'"
  "same_but_uTime s s' \<Longrightarrow> currentFBO s = currentFBO s'"
  by (simp_all add: same_but_uTime_def prevFBO_def currentFBO_def)

lemma same_refl: "same_but_uTime s s"
  by (cases "displayMaterial s") (simp_all add: same_but_uTime_def)

lemma useFrame_same:
  assumes "same_but_uTime s s'" "same_but_speed_waveHeight (p, h, t) (p', h', t')"
  shows "same_but_uTime (useFrame p h t s) (useFrame p' h' t' s')"
proof (cases "simMaterial s = None \<or> displayMaterial s = None")
  case True
  then have "simMaterial s' = None \<or> displayMaterial s' = None"
    using assms(1) by (auto simp add: same_but_uTime_def)
  then show ?thesis using True assms(1) by (simp add: useFrame_unmounted)
next
  case False
  then obtain sm dm where m: "simMaterial s = Some sm" "displayMaterial s = Some dm" by auto
  then obtain dm' where m': "simMaterial s' = Some sm" "displayMaterial s' = Some dm'"
    using assms(1) by (cases "displayMaterial s'") (auto simp add: same_but_uTime_def)
  have d: "uTexture dm = uTexture dm'" "uData dm = uData dm'" "uRefraction dm = uRefraction dm'"
    "uReflection dm = uReflection dm'" "uDistortion dm = uDistortion dm'"
    using assms(1) m m' by (simp_all add: same_but_uTime_def)
  have u: "sim_step_uniforms p' h' s' = sim_step_uniforms p h s"
    using assms(2) same_contents[OF assms(1)] same_roles[OF assms(1)]
    by (simp add: sim_step_uniforms_def)
  have v: "videoTexture s' = videoTexture s" using assms(1) by (simp add: same_but_uTime_def)
  have cont: "contents (useFrame p h t s) r = contents (useFrame p' h' t' s') r" for r
  proof (cases "r = currentFBO s")
    case True
    show ?thesis
      using useFrame_facts(3)[OF m, of p h t] useFrame_facts(3)[OF m', of p' h' t'] u
      by (simp add: True same_roles(2)[OF assms(1), symmetric])
  next
    case False
    then have r: "r = prevFBO s" using ref_cases[of r s] by simp
    show ?thesis
      using useFrame_facts(4)[OF m, of p h t] useFrame_facts(4)[OF m', of p' h' t']
        same_contents[OF assms(1), of "prevFBO s"]
      by (simp add: r same_roles(1)[OF assms(1), symmetric])
  qed
  have a: "fboA (useFrame p h t s) = fboA (useFrame p' h' t' s')"
    using cont[of FboA_texture] by simp
  have b: "fboB (useFrame p h t s) = fboB (useFrame p' h' t' s')"
    using cont[of FboB_texture] by simp
  have c: "simMaterial (useFrame p h t s) = simMaterial (useFrame p' h' t' s')"
    using assms(2) same_roles[OF assms(1)]
    by (simp add: useFrame_facts(5)[OF m] useFrame_facts(5)[OF m'])
  have e: "swap (useFrame p h t s) = swap (useFrame p' h' t' s')"
    using assms(1) by (simp add: useFrame_facts(1)[OF m] useFrame_facts(1)[OF m'] same_but_uTime_def)
  have f: "videoTexture (useFrame p h t s) = videoTexture (useFrame p' h' t' s')"
    using v by (simp add: useFrame_facts(2)[OF m] useFrame_facts(2)[OF m'])
  show ?thesis
    unfolding same_but_uTime_def
    using a b c e f assms(2) d v same_roles[OF assms(1)]
    by (cases "videoTexture s")
       (simp_all add: useFrame_facts(6)[OF m] useFrame_facts(6)[OF m'])
qed

lemma frames_same:
  assumes "list_all2 same_but_speed_waveHeight xs ys" "same_but_uTime s s'"
  shows "same_but_uTime (frames xs s) (frames ys s')"
  using assms
proof (induction xs ys arbitrary: s s' rule: list_all2_induct)
  case Nil
  then show ?case by simp
next
  case (Cons x xs y ys)
  obtain p h t where x: "x = (p, h, t)" by (cases x) auto
  obtain p' h' t' where y: "y = (p', h', t')" by (cases y) auto
  have "same_but_uTime (useFrame p h t s) (useFrame p' h' t' s')"
    using Cons.hyps(1) Cons.prems unfolding x y by (rule useFrame_same[rotated])
  then have "same_but_uTime (frames xs (useFrame p h t s)) (frames ys (useFrame p' h' t' s'))"
    by (rule Cons.IH)
  then show ?case by (simp add: x y)
qed

lemma same_display_pass:
  assumes "same_but_uTime s s'"
  shows "display_pass s = display_pass s'"
proof (cases "displayMaterial s")
  case None
  then have "displayMaterial s' = None" using assms by (simp add: same_but_uTime_def)
  then show ?thesis using None by (simp add: display_pass_def)
next
  case (Some d)
  then obtain d' where s': "displayMaterial s' = Some d'"
    using assms by (cases "displayMaterial s'") (auto simp add: same_but_uTime_def)
  have e: "uTexture d = uTexture d'" "uData d = uData d'" "uRefraction d = uRefraction d'"
    "uReflection d = uReflection d'" "uDistortion d = uDistortion d'"
    using assms Some s' by (simp_all add: same_but_uTime_def)
  have "DisplayShader_fragmentShader (bind_display s d) vUv =
        DisplayShader_fragmentShader (bind_display s' d') vUv" for vUv
    using e same_bind_field[OF assms]
    by (intro DisplayShader_cong) (simp_all add: bind_display_def)
  then have "DisplayShader_fragmentShader (bind_display s d) =
        DisplayShader_fragmentShader (bind_display s' d')" by (rule ext)
  then show ?thesis by (simp add: display_pass_def Some s')
qed

text \<open>
  C9. Two runs of frames from the same state whose inputs agree on everything but the
  parameters \<^verbatim>\<open>speed\<close> and \<^verbatim>\<open>waveHeight\<close> end with the same two buffers and the same
  display pass, that is, the same colour at every coordinate.
\<close>

theorem speed_waveHeight_unused:
  "list_all2 same_but_speed_waveHeight xs ys \<longrightarrow>
   display_pass (frames xs s) = display_pass (frames ys s) \<and>
   fboA (frames xs s) = fboA (frames ys s) \<and> fboB (frames xs s) = fboB (frames ys s)"
proof
  assume "list_all2 same_but_speed_waveHeight xs ys"
  then have r: "same_but_uTime (frames xs s) (frames ys s)"
    using same_refl by (rule frames_same)
  then show "display_pass (frames xs s) = display_pass (frames ys s) \<and>
   fboA (frames xs s) = fboA (frames ys s) \<and> fboB (frames xs s) = fboB (frames ys s)"
    using same_display_pass[OF r] by (simp add: same_but_uTime_def)
qed

theorem speed_waveHeight_unused_witness:
  "list_all2 same_but_speed_waveHeight
     [(DEFAULT_PARAMS, handStatus_pinch, 1)]
     [(DEFAULT_PARAMS\<lparr>speed := 3, waveHeight := 2\<rparr>, handStatus_pinch, 1)] \<and>
   display_pass (frames [(DEFAULT_PARAMS, handStatus_pinch, 1)] (mounted None)) =
   display_pass (frames [(DEFAULT_PARAMS\<lparr>speed := 3, waveHeight := 2\<rparr>, handStatus_pinch, 1)]
                   (mounted None))"
  using speed_waveHeight_unused[of "[(DEFAULT_PARAMS, handStatus_pinch, 1)]"
      "[(DEFAULT_PARAMS\<lparr>speed := 3, waveHeight := 2\<rparr>, handStatus_pinch, 1)]" "mounted None"]
  by simp

section \<open>Where the display pass samples the camera texture\<close>

lemma mix_same: "mix a a t = a"
  by (simp add: mix_def algebra_simps)

lemma mix_vec4_same: "mix_vec4 v v t = v"
  by (cases v) (simp add: mix_same)

lemma edge_mounted:
  "simMaterial (mounted (Some flat_half)) = Some SimulationShader_uniforms_init"
  "displayMaterial (mounted (Some flat_half)) = Some DisplayShader_uniforms_init"
  by (simp_all add: mounted_def)

lemma edge_roles:
  "prevFBO (mounted v) = FboA_texture" "currentFBO (mounted v) = FboB_texture"
  by (simp_all add: prevFBO_def currentFBO_def mounted_def)

lemma mounted_contents: "contents (mounted v) r = cleared"
  by (cases r) (simp_all add: mounted_def)

lemma mounted_video: "videoTexture (mounted v) = v"
  by (simp add: mounted_def)

lemma edge_mouse:
  "(mouseX handStatus_edge, mouseY handStatus_edge, force handStatus_edge) = (1023 / 1024, 511 / 1024, 1)"
  by (simp add: mouseX_def mouseY_def force_def handStatus_edge_def)

lemma edge_brush: "brush (pixel_centre 511 255) (1023 / 1024, 511 / 1024, 1) (3 / 5) = 3 / 5"
  by (simp add: brush_def pixel_centre_def smoothstep_def clamp_def)

lemma edge_texel: "fboB edge_frame 511 255 = (72 / 125, 72 / 125, 72 / 125, 1)"
proof -
  have t: "in_target 511 255" by (simp add: in_target_def)
  have "fboB edge_frame = render_target (SimulationShader_fragmentShader
          (sim_step_uniforms DEFAULT_PARAMS handStatus_edge (mounted (Some flat_half))))"
    using useFrame_facts(3)[OF edge_mounted, of DEFAULT_PARAMS handStatus_edge 0]
    by (simp add: edge_frame_def edge_roles)
  moreover have "sim_step_uniforms DEFAULT_PARAMS handStatus_edge (mounted (Some flat_half)) =
     \<lparr>uPrev = linear_sampler cleared, uMouse = (1023 / 1024, 511 / 1024, 1),
      uViscosity = 24 / 25, uRippleStrength = 3 / 5\<rparr>"
    by (simp add: sim_step_uniforms_def mounted_contents edge_mouse[simplified] DEFAULT_PARAMS_def)
  ultimately show ?thesis
    by (simp add: render_target_def t SimulationShader_at_centre edge_brush texel_at_def cleared_def
        Let_def)
qed

lemma edge_display:
  "displayMaterial edge_frame =
     Some \<lparr>uTexture = Some flat_half, uData = Some FboB_texture, uRefraction = 1 / 10,
           uReflection = 1 / 2, uDistortion = 4 / 5, uTime = 0\<rparr>"
  using useFrame_facts(6)[OF edge_mounted, of DEFAULT_PARAMS handStatus_edge 0]
  by (simp add: edge_frame_def edge_roles mounted_video DisplayShader_uniforms_init_def
      DEFAULT_PARAMS_def)

lemma edge_bound_height: "display_height edge_bound (1023 / 1024, 511 / 1024) = 72 / 125"
  using linear_sampler_centre[of "fboB edge_frame" 511 255]
  by (simp add: display_height_def edge_bound_def texture2D_def texel_at_def edge_texel)

lemma edge_bound_right:
  "linear_sampler (fboB edge_frame) (25831 / 25600, 511 / 1024) = fboB edge_frame 511 255"
  by (simp add: linear_sampler_def texel_at_def mix_vec4_same mix_vec4_0)


lemma edge_bound_normal: "fst (display_normal edge_bound (1023 / 1024, 511 / 1024)) = 0"
proof -
  have "red (texture2D (uData edge_bound) (vec2_add (1023 / 1024, 511 / 1024) (1 / 100, 0))) = 72 / 125"
    by (simp add: edge_bound_def texture2D_def edge_bound_right edge_texel)
  then show ?thesis
    by (simp add: display_normal_def edge_bound_height normalize_vec3_def Let_def)
qed

lemma edge_bound_distortedUv:
  "fst (display_distortedUv edge_bound (1023 / 1024, 511 / 1024)) = 999 / 1000"
proof -
  obtain nx ny nz where n: "display_normal edge_bound (1023 / 1024, 511 / 1024) = (nx, ny, nz)"
    by (cases "display_normal edge_bound (1023 / 1024, 511 / 1024)") auto
  then have "nx = 0" using edge_bound_normal by simp
  then show ?thesis by (simp add: display_distortedUv_def n clamp_def)
qed

lemma edge_bound_samples:
  "map fst (display_camera_samples edge_bound (1023 / 1024, 511 / 1024)) =
     [999 / 1000, 1001 / 1000, 997 / 1000]"
proof -
  obtain a b where d: "display_distortedUv edge_bound (1023 / 1024, 511 / 1024) = (a, b)"
    by (cases "display_distortedUv edge_bound (1023 / 1024, 511 / 1024)") auto
  then have "a = 999 / 1000" using edge_bound_distortedUv by simp
  then show ?thesis by (simp add: display_camera_samples_def d edge_bound_height)
qed

lemma edge_bind: "bind_display edge_frame
     \<lparr>uTexture = Some flat_half, uData = Some FboB_texture, uRefraction = 1 / 10,
      uReflection = 1 / 2, uDistortion = 4 / 5, uTime = 0\<rparr> = edge_bound"
  by (simp add: bind_display_def bind_camera_def bind_field_def edge_bound_def)

text \<open>
  C6. The distorted coordinate is clamped to \<open>[0.001, 0.999]\<^sup>2\<close> (lemma
  \<open>distortedUv_range\<close>), but the two samples of lines 122 and 123 are taken 0.002 to its
  right and left with no further clamp. After one frame with a pinch at the right edge,
  the display pass at \<open>vUv = (1023/1024, 511/1024)\<close> finds the height 0.576 there and
  samples the camera texture at the horizontal coordinates 0.999, 1.001 and 0.997: the
  second one is outside the image.
\<close>

theorem camera_sample_outside:
  "map_option (\<lambda>d. map fst (display_camera_samples (bind_display edge_frame d) (1023 / 1024, 511 / 1024)))
     (displayMaterial edge_frame) = Some [0.999, 1.001, 0.997]"
  by (simp add: edge_display edge_bind edge_bound_samples)

section \<open>Decay over a field that is not uniform\<close>

lemma distance_vertical: "distance_vec2 (a, b) (a, c) = \<bar>b - c\<bar>"
  by simp

lemma distance_horizontal: "distance_vec2 (a, b) (c, b) = \<bar>a - c\<bar>"
  by simp

lemma brush_at: "brush c (px, py, 1) (3 / 5) = smoothstep (1 / 20) 0 (distance_vec2 c (px, py)) * (3 / 5)"
  by (simp add: brush_def)

lemma smoothstep_centre: "smoothstep (1 / 20) 0 0 = 1"
  by (simp add: smoothstep_def clamp_def)

lemma smoothstep_next: "smoothstep (1 / 20) 0 (1 / 512) = 1043901 / 1048576"
  by (simp add: smoothstep_def clamp_def)

lemma texel_mouse:
  "mouseX handStatus_texel = 511 / 1024" "mouseY handStatus_texel = 511 / 1024"
  "force handStatus_texel = 1"
  by (simp_all add: mouseX_def mouseY_def force_def handStatus_texel_def)

lemma pinched_mounted:
  "simMaterial (mounted None) = Some SimulationShader_uniforms_init"
  "displayMaterial (mounted None) = Some DisplayShader_uniforms_init"
  by (simp_all add: mounted_def)

lemma pinched_field:
  assumes "in_target i j"
  shows "field pinched i j =
           brush (pixel_centre i j) (511 / 1024, 511 / 1024, 1) (3 / 5) * (24 / 25)"
  unfolding pinched_def useFrame_field[OF pinched_mounted assms] mounted_contents
  by (simp add: texel_mouse texel_at_def cleared_def DEFAULT_PARAMS_def)

lemma pinched_values:
  "field pinched 255 255 = 72 / 125"
  "field pinched 255 256 = 1043901 / 1048576 * (72 / 125)"
  "field pinched 255 254 = 1043901 / 1048576 * (72 / 125)"
  "field pinched 254 255 = 1043901 / 1048576 * (72 / 125)"
  "field pinched 256 255 = 1043901 / 1048576 * (72 / 125)"
proof -
  have t: "in_target 255 255" "in_target 255 256" "in_target 255 254" "in_target 254 255"
    "in_target 256 255" by (simp_all add: in_target_def)
  have c: "pixel_centre 255 255 = (511 / 1024, 511 / 1024)"
    "pixel_centre 255 256 = (511 / 1024, 513 / 1024)"
    "pixel_centre 255 254 = (511 / 1024, 509 / 1024)"
    "pixel_centre 254 255 = (509 / 1024, 511 / 1024)"
    "pixel_centre 256 255 = (513 / 1024, 511 / 1024)"
    by (simp_all add: pixel_centre_def)
  show "field pinched 255 255 = 72 / 125"
    unfolding pinched_field[OF t(1)] c brush_at distance_vertical by (simp add: smoothstep_centre)
  show "field pinched 255 256 = 1043901 / 1048576 * (72 / 125)"
    unfolding pinched_field[OF t(2)] c brush_at distance_vertical by (simp add: smoothstep_next)
  show "field pinched 255 254 = 1043901 / 1048576 * (72 / 125)"
    unfolding pinched_field[OF t(3)] c brush_at distance_vertical by (simp add: smoothstep_next)
  show "field pinched 254 255 = 1043901 / 1048576 * (72 / 125)"
    unfolding pinched_field[OF t(4)] c brush_at distance_horizontal by (simp add: smoothstep_next)
  show "field pinched 256 255 = 1043901 / 1048576 * (72 / 125)"
    unfolding pinched_field[OF t(5)] c brush_at distance_horizontal by (simp add: smoothstep_next)
qed


lemma pinched_stays:
  "simMaterial pinched \<noteq> None \<and> displayMaterial pinched \<noteq> None"
  unfolding pinched_def by (rule useFrame_stays_mounted) (simp add: mounted_def)

text \<open>
  C4, as the claim states it, fails on a field that is not uniform: a cell is replaced
  by the decayed mean of its four neighbours, not by its own decayed value. After one
  frame with a pinch at the texel \<open>(255, 255)\<close> that cell holds 0.576 and its four
  neighbours a little less; one frame later, with no disturbance and viscosity 0.96, it
  holds 28185327/51200000 (about 0.5505), not 0.576 * 0.96 = 0.55296.
\<close>

theorem decay_counterexample:
  "force handStatus_init = 0 \<and> viscosity DEFAULT_PARAMS = 0.96 \<and>
   field pinched 255 255 = 0.576 \<and>
   field (frames [(DEFAULT_PARAMS, handStatus_init, 1)] pinched) 255 255 = 28185327 / 51200000 \<and>
   (28185327 / 51200000 :: real) \<noteq> 0.576 * 0.96"
proof -
  obtain sm dm where m: "simMaterial pinched = Some sm" "displayMaterial pinched = Some dm"
    using pinched_stays by auto
  have t: "in_target 255 255" by (simp add: in_target_def)
  have f: "force handStatus_init = 0" by (simp add: force_def handStatus_init_def)
  have n: "red (texel_at (contents pinched (prevFBO pinched)) i j) = field pinched i j"
    if "in_target i j" for i j
    using that by (simp add: texel_at_def field_def in_target_def)
  have tn: "in_target 255 (255 + 1)" "in_target 255 (255 - 1)" "in_target (255 - 1) 255"
    "in_target (255 + 1) 255" by (simp_all add: in_target_def)
  have "field (useFrame DEFAULT_PARAMS handStatus_init 1 pinched) 255 255 = 28185327 / 51200000"
    unfolding useFrame_field[OF m t] n[OF tn(1)] n[OF tn(2)] n[OF tn(3)] n[OF tn(4)] f brush_no_force
    by (simp add: pinched_values DEFAULT_PARAMS_def)
  then show ?thesis using f by (simp add: pinched_values DEFAULT_PARAMS_def)
qed

end
